theory Spec2Isabelle
  imports Main "HOL-Library.AList"
begin

section \<open>JavaScript values and objects, as far as index.js uses them\<close>

text \<open>
  Property values are the primitive values of JavaScript. Numbers are the integer-valued
  ones (status codes); NaN, the infinities and fractions are not represented.
\<close>

datatype jsval = VUndefined | VNull | VBool bool | VNum int | VStr string

fun typeof :: "jsval \<Rightarrow> string" where
  "typeof VUndefined = ''undefined''"
| "typeof VNull = ''object''"
| "typeof (VBool b) = ''boolean''"
| "typeof (VNum n) = ''number''"
| "typeof (VStr s) = ''string''"

fun truthy :: "jsval \<Rightarrow> bool" where
  "truthy VUndefined = False"
| "truthy VNull = False"
| "truthy (VBool b) = b"
| "truthy (VNum n) = (n \<noteq> 0)"
| "truthy (VStr s) = (s \<noteq> [])"

definition js_or :: "jsval \<Rightarrow> jsval \<Rightarrow> jsval" where
  "js_or a b = (if truthy a then a else b)"

text \<open>
  The prototype of an object: \<open>Object.prototype\<close>, \<open>Error.prototype\<close>, the prototype of the
  abstract \<open>HttpError\<close>, or the prototype of the constructor that
  \<open>createClientErrorConstructor\<close> / \<open>createServerErrorConstructor\<close> built for a code.
\<close>

datatype proto = ObjectProto | ErrorProto | HttpErrorProto | ClientProto int | ServerProto int

text \<open>
  The own property \<open>stack\<close> of an object. \<open>Lazy stackCaptured stackValue\<close> is the accessor
  that the variant constructors install, with the two variables of its closure;
  \<open>Stored v enumerable\<close> is a data property; \<open>NoStack\<close> is no own property.
\<close>

datatype stackslot = NoStack | Lazy bool jsval | Stored jsval bool

text \<open>
  An object: its identity, its prototype, its \<open>stack\<close> property, and its other own
  properties in insertion order, each with its value and its enumerable flag. All own
  properties are configurable and writable, and the object is extensible, as the objects
  that index.js builds are. The key \<open>stack\<close> lives in the slot only.
\<close>

record obj =
  oid :: nat
  proto :: proto
  stack :: stackslot
  own :: "(string \<times> jsval \<times> bool) list"

text \<open>
  \<open>ClientError.prototype.status = code\<close> and its two siblings are plain assignments:
  enumerable data properties of the prototype. \<open>Error.prototype\<close> carries \<open>name\<close> and
  \<open>message\<close>, not enumerable, and no \<open>stack\<close>. Inherited methods are not represented.
\<close>

definition error_proto_get :: "string \<Rightarrow> jsval" where
  "error_proto_get k =
     (if k = ''name'' then VStr ''Error'' else if k = ''message'' then VStr '''' else VUndefined)"

fun proto_get :: "proto \<Rightarrow> string \<Rightarrow> jsval" where
  "proto_get (ClientProto c) k =
     (if k = ''status'' then VNum c else if k = ''statusCode'' then VNum c
      else if k = ''expose'' then VBool True else error_proto_get k)"
| "proto_get (ServerProto c) k =
     (if k = ''status'' then VNum c else if k = ''statusCode'' then VNum c
      else if k = ''expose'' then VBool False else error_proto_get k)"
| "proto_get HttpErrorProto k = error_proto_get k"
| "proto_get ErrorProto k = error_proto_get k"
| "proto_get ObjectProto k = VUndefined"

fun proto_enum_keys :: "proto \<Rightarrow> string list" where
  "proto_enum_keys (ClientProto c) = [''status'', ''statusCode'', ''expose'']"
| "proto_enum_keys (ServerProto c) = [''status'', ''statusCode'', ''expose'']"
| "proto_enum_keys p = []"

text \<open>Reading \<open>ob[k]\<close> for a key other than \<open>stack\<close>: own property first, then the prototype.\<close>

definition get :: "obj \<Rightarrow> string \<Rightarrow> jsval" where
  "get ob k = (case map_of (own ob) k of Some (v, e) \<Rightarrow> v | None \<Rightarrow> proto_get (proto ob) k)"

text \<open>
  The assignment \<open>ob[k] = v\<close>: an existing own property keeps its flag, a new one is
  enumerable; on the accessor of \<open>stack\<close> the setter runs
  (\<open>stackValue = value; stackCaptured = true\<close>).
\<close>

definition assign :: "obj \<Rightarrow> string \<Rightarrow> jsval \<Rightarrow> obj" where
  "assign ob k v =
     (if k = ''stack'' then
        ob\<lparr>stack := (case stack ob of
                       NoStack \<Rightarrow> Stored v True
                     | Lazy c sv \<Rightarrow> Lazy True v
                     | Stored old e \<Rightarrow> Stored v e)\<rparr>
      else
        ob\<lparr>own := AList.update k (v, case map_of (own ob) k of Some (old, e) \<Rightarrow> e | None \<Rightarrow> True)
                    (own ob)\<rparr>)"

text \<open>\<open>delete ob[k]\<close> removes an own property and leaves inherited ones alone.\<close>

definition delete_prop :: "obj \<Rightarrow> string \<Rightarrow> obj" where
  "delete_prop ob k =
     (if k = ''stack'' then ob\<lparr>stack := NoStack\<rparr> else ob\<lparr>own := AList.delete k (own ob)\<rparr>)"

text \<open>
  The keys that \<open>for (var key in ob)\<close> visits: the enumerable own properties, then the
  enumerable properties of the prototype that no own property shadows.
\<close>

definition own_enum_keys :: "obj \<Rightarrow> string list" where
  "own_enum_keys ob =
     (case stack ob of Stored v True \<Rightarrow> [''stack''] | _ \<Rightarrow> []) @
     filter (\<lambda>k. k \<noteq> ''stack'' \<and> (case map_of (own ob) k of Some (v, e) \<Rightarrow> e | None \<Rightarrow> False))
       (remdups (map fst (own ob)))"

definition forin_keys :: "obj \<Rightarrow> string list" where
  "forin_keys ob =
     own_enum_keys ob @ filter (\<lambda>k. map_of (own ob) k = None) (proto_enum_keys (proto ob))"

text \<open>The value \<open>ob[k]\<close> for a key that \<open>for ... in\<close> visits (a data property).\<close>

definition get_enum :: "obj \<Rightarrow> string \<Rightarrow> jsval" where
  "get_enum ob k =
     (if k = ''stack'' then (case stack ob of Stored v e \<Rightarrow> v | _ \<Rightarrow> VUndefined) else get ob k)"

definition instanceof_Error :: "obj \<Rightarrow> bool" where
  "instanceof_Error ob = (proto ob \<noteq> ObjectProto)"

definition instanceof_HttpError :: "obj \<Rightarrow> bool" where
  "instanceof_HttpError ob = (proto ob \<noteq> ObjectProto \<and> proto ob \<noteq> ErrorProto)"

section \<open>Collaborators and module state\<close>

text \<open>
  The modules \<open>statuses\<close> and \<open>toidentifier\<close> and the text that
  \<open>Error.captureStackTrace\<close> produces are not part of index.js; they are parameters.
  \<open>trace n\<close> is the text of the capture made after \<open>n\<close> earlier ones.
\<close>

record env =
  statuses_message :: "int \<Rightarrow> string option"
  statuses_codes :: "int list"
  toIdentifier :: "string \<Rightarrow> string"
  trace :: "nat \<Rightarrow> string"

text \<open>
  The module state: the five arrays of \<open>errorPool\<close> (last element on top), the number of
  calls of \<open>deprecate\<close>, the number of calls of \<open>Error.captureStackTrace\<close>, and the identity
  of the next object to be allocated.
\<close>

record world =
  errorPool :: "int \<Rightarrow> obj list"
  warnings :: nat
  captures :: nat
  next_oid :: nat

definition pooled :: "int \<Rightarrow> bool" where
  "pooled c = (c \<in> {400, 401, 403, 404, 500})"

definition poolSize :: nat where
  "poolSize = 10"

datatype error = TypeError string

fun lead_digit :: "nat \<Rightarrow> nat" where
  "lead_digit n = (if n < 10 then n else lead_digit (n div 10))"

declare lead_digit.simps [simp del]

text \<open>\<open>Number(String(status).charAt(0) + '00')\<close>; for a negative number that is \<open>'-00'\<close>.\<close>

definition codeClass :: "int \<Rightarrow> int" where
  "codeClass status = (if status < 0 then 0 else int (lead_digit (nat status)) * 100)"

fun string_of_nat :: "nat \<Rightarrow> string" where
  "string_of_nat n =
     (if n < 10 then [''0123456789'' ! n]
      else string_of_nat (n div 10) @ [''0123456789'' ! (n mod 10)])"

declare string_of_nat.simps [simp del]

fun string_of_int :: "int \<Rightarrow> string" where
  "string_of_int n = (if n < 0 then CHR ''-'' # string_of_nat (nat (- n)) else string_of_nat (nat n))"

text \<open>\<open>String(v)\<close>, as \<open>new Error(v)\<close> applies it to its argument.\<close>

fun to_string :: "jsval \<Rightarrow> string" where
  "to_string VUndefined = ''undefined''"
| "to_string VNull = ''null''"
| "to_string (VBool b) = (if b then ''true'' else ''false'')"
| "to_string (VNum n) = string_of_int n"
| "to_string (VStr s) = s"

definition statuses_lookup :: "env \<Rightarrow> int \<Rightarrow> jsval" where
  "statuses_lookup E n = (case statuses_message E n of Some p \<Rightarrow> VStr p | None \<Rightarrow> VUndefined)"

section \<open>Runtime primitives\<close>

text \<open>
  \<open>new Error(m)\<close>: a fresh object below \<open>Error.prototype\<close>, with an own \<open>message\<close> unless
  \<open>m\<close> is undefined. The trace that the constructor records itself is deleted or
  overwritten by index.js before anything reads it; \<open>captures\<close> counts the calls of
  \<open>Error.captureStackTrace\<close> that index.js makes.
\<close>

definition new_Error :: "env \<Rightarrow> jsval \<Rightarrow> world \<Rightarrow> obj \<times> world" where
  "new_Error E m w =
     (\<lparr>oid = next_oid w, proto = ErrorProto,
       stack = Stored (VStr (trace E (captures w))) False,
       own = (if m = VUndefined then [] else [(''message'', VStr (to_string m), False)])\<rparr>,
      w\<lparr>next_oid := Suc (next_oid w)\<rparr>)"

text \<open>\<open>Error.captureStackTrace(ob, f)\<close> defines the own data property \<open>stack\<close> of \<open>ob\<close>.\<close>

definition captureStackTrace :: "env \<Rightarrow> obj \<Rightarrow> world \<Rightarrow> obj \<times> world" where
  "captureStackTrace E ob w =
     (ob\<lparr>stack := Stored (VStr (trace E (captures w))) False\<rparr>,
      w\<lparr>captures := Suc (captures w)\<rparr>)"

text \<open>\<open>Object.defineProperty(ob, k, {value: v, enumerable: e, ...})\<close> for a key other than \<open>stack\<close>.\<close>

definition defineProperty :: "obj \<Rightarrow> string \<Rightarrow> jsval \<Rightarrow> bool \<Rightarrow> obj" where
  "defineProperty ob k v e = ob\<lparr>own := AList.update k (v, e) (own ob)\<rparr>"

section \<open>The variant constructors\<close>

definition toClassName :: "string \<Rightarrow> string" where
  "toClassName name = (if drop (length name - 5) name = ''Error'' then name else name @ ''Error'')"

text \<open>
  The function \<open>ClientError\<close> that \<open>createClientErrorConstructor(HttpError, name, code)\<close>
  returns, applied to \<open>message\<close>.
\<close>

definition ClientError :: "env \<Rightarrow> string \<Rightarrow> int \<Rightarrow> jsval \<Rightarrow> world \<Rightarrow> obj \<times> world" where
  "ClientError E name code message w =
     (let className = toClassName name;
          defaultMsg = statuses_lookup E code;
          msg = (if message \<noteq> VUndefined \<and> message \<noteq> VNull then message else defaultMsg);
          (err, w') = new_Error E msg w;
          err = err\<lparr>proto := ClientProto code\<rparr>;
          err = delete_prop err ''stack'';
          err = err\<lparr>stack := Lazy False VUndefined\<rparr>;
          err = defineProperty err ''message'' msg True;
          err = defineProperty err ''name'' (VStr className) False
      in (err, w'))"

definition ServerError :: "env \<Rightarrow> string \<Rightarrow> int \<Rightarrow> jsval \<Rightarrow> world \<Rightarrow> obj \<times> world" where
  "ServerError E name code message w =
     (let className = toClassName name;
          defaultMsg = statuses_lookup E code;
          msg = (if message \<noteq> VUndefined \<and> message \<noteq> VNull then message else defaultMsg);
          (err, w') = new_Error E msg w;
          err = err\<lparr>proto := ServerProto code\<rparr>;
          err = delete_prop err ''stack'';
          err = err\<lparr>stack := Lazy False VUndefined\<rparr>;
          err = defineProperty err ''message'' msg True;
          err = defineProperty err ''name'' (VStr className) False
      in (err, w'))"

text \<open>
  Reading \<open>ob.stack\<close>. On the accessor the getter runs: when \<open>stackCaptured\<close> is false it
  calls \<open>Error.captureStackTrace(this, ClientError)\<close>, keeps the text and redefines
  \<open>stack\<close> as a data property. With no own property the lookup ends at
  \<open>Error.prototype\<close>, which has no \<open>stack\<close>.
\<close>

definition read_stack :: "env \<Rightarrow> obj \<Rightarrow> world \<Rightarrow> jsval \<times> obj \<times> world" where
  "read_stack E ob w =
     (case stack ob of
        NoStack \<Rightarrow> (VUndefined, ob, w)
      | Stored v e \<Rightarrow> (v, ob, w)
      | Lazy stackCaptured stackValue \<Rightarrow>
          if \<not> stackCaptured then
            (let (this, w') = captureStackTrace E ob w;
                 stackValue = get_enum this ''stack'';
                 this = this\<lparr>stack := Stored stackValue False\<rparr>
             in (stackValue, this, w'))
          else (stackValue, ob, w))"

section \<open>The registry of constructors\<close>

datatype ctor = ClientCtor string int | ServerCtor string int

text \<open>
  \<open>populateConstructorExports\<close>: \<open>createError[code]\<close> for a code of \<open>statuses.codes\<close>
  whose class is 400 or 500. (\<open>toIdentifier\<close> of a missing phrase throws while the module
  loads; there is no constructor then.)
\<close>

definition exports :: "env \<Rightarrow> int \<Rightarrow> ctor option" where
  "exports E code =
     (if code \<in> set (statuses_codes E) then
        (case statuses_message E code of
           None \<Rightarrow> None
         | Some phrase \<Rightarrow>
             if codeClass code = 400 then Some (ClientCtor (toIdentifier E phrase) code)
             else if codeClass code = 500 then Some (ServerCtor (toIdentifier E phrase) code)
             else None)
      else None)"

fun construct :: "env \<Rightarrow> ctor \<Rightarrow> jsval \<Rightarrow> world \<Rightarrow> obj \<times> world" where
  "construct E (ClientCtor name code) message w = ClientError E name code message w"
| "construct E (ServerCtor name code) message w = ServerError E name code message w"

fun ctor_prototype :: "ctor \<Rightarrow> proto" where
  "ctor_prototype (ClientCtor name code) = ClientProto code"
| "ctor_prototype (ServerCtor name code) = ServerProto code"

definition instanceof :: "obj \<Rightarrow> ctor \<Rightarrow> bool" where
  "instanceof ob c = (proto ob = ctor_prototype c)"

section \<open>createError\<close>

text \<open>
  An argument: a primitive value, an object, or a value of another kind (a function, a
  symbol, a bigint), given by what \<open>typeof\<close> returns for it.
\<close>

datatype arg = Prim jsval | Object obj | Other string

fun typeof_arg :: "arg \<Rightarrow> string" where
  "typeof_arg (Prim v) = typeof v"
| "typeof_arg (Object ob) = ''object''"
| "typeof_arg (Other t) = t"

text \<open>
  The variables \<open>err\<close>, \<open>msg\<close>, \<open>status\<close>, \<open>props\<close> of \<open>createError\<close>. \<open>props\<close> is \<open>None\<close>
  for the initial \<open>{}\<close> and for \<open>null\<close>: \<open>for ... in\<close> visits nothing in either.
\<close>

type_synonym scan_state = "obj option \<times> string option \<times> jsval \<times> obj option"

definition unsupported :: "nat \<Rightarrow> arg \<Rightarrow> string" where
  "unsupported i a =
     ''argument #'' @ string_of_nat (i + 1) @ '' unsupported type '' @ typeof_arg a"

text \<open>The loop over \<open>arguments\<close>, from index \<open>i\<close> on.\<close>

fun scan :: "nat \<Rightarrow> arg list \<Rightarrow> scan_state \<Rightarrow> error + scan_state" where
  "scan i [] st = Inr st"
| "scan i (Object ob # as) (err, msg, status, props) =
     (if instanceof_Error ob then
        scan (Suc i) as
          (Some ob, msg, js_or (js_or (get ob ''status'') (get ob ''statusCode'')) status, props)
      else scan (Suc i) as (err, msg, status, Some ob))"
| "scan i (Prim v # as) (err, msg, status, props) =
     (if typeof v = ''number'' \<and> i = 0 then scan (Suc i) as (err, msg, v, props)
      else case v of
        VStr s \<Rightarrow> scan (Suc i) as (err, Some s, status, props)
      | VNull \<Rightarrow> scan (Suc i) as (err, msg, status, None)
      | _ \<Rightarrow> Inl (TypeError (unsupported i (Prim v))))"
| "scan i (Other t # as) st = Inl (TypeError (unsupported i (Other t)))"

definition props_keys :: "obj option \<Rightarrow> string list" where
  "props_keys props = (case props of None \<Rightarrow> [] | Some p \<Rightarrow> forin_keys p)"

definition props_get :: "obj option \<Rightarrow> string \<Rightarrow> jsval" where
  "props_get props k = (case props of None \<Rightarrow> VUndefined | Some p \<Rightarrow> get_enum p k)"

text \<open>\<open>typeof status === 'number' && (status < 400 || status >= 600)\<close>\<close>

definition non_error_status :: "jsval \<Rightarrow> bool" where
  "non_error_status status = (case status of VNum n \<Rightarrow> n < 400 \<or> n \<ge> 600 | _ \<Rightarrow> False)"

text \<open>The status after the fallback to 500 of lines 96 to 99.\<close>

definition resolve_status :: "env \<Rightarrow> jsval \<Rightarrow> int" where
  "resolve_status E status =
     (case status of
        VNum n \<Rightarrow> if \<not> truthy (statuses_lookup E n) \<and> (n < 400 \<or> n \<ge> 600) then 500 else n
      | _ \<Rightarrow> 500)"

text \<open>\<open>createError[status] || createError[codeClass(status)]\<close>\<close>

definition resolve_ctor :: "env \<Rightarrow> int \<Rightarrow> ctor option" where
  "resolve_ctor E status =
     (case exports E status of Some c \<Rightarrow> Some c | None \<Rightarrow> exports E (codeClass status))"

definition msg_val :: "string option \<Rightarrow> jsval" where
  "msg_val msg = (case msg of None \<Rightarrow> VUndefined | Some s \<Rightarrow> VStr s)"

text \<open>Lines 121 to 127: the error object, adopted or built.\<close>

definition create_err ::
  "env \<Rightarrow> ctor option \<Rightarrow> obj option \<Rightarrow> string option \<Rightarrow> int \<Rightarrow> world \<Rightarrow> obj \<times> world" where
  "create_err E HttpError err msg status w =
     (case err of
        Some e \<Rightarrow> (e, w)
      | None \<Rightarrow>
          (let (e, w') = (case HttpError of
                            Some c \<Rightarrow> construct E c (msg_val msg) w
                          | None \<Rightarrow> new_Error E (js_or (msg_val msg) (statuses_lookup E status)) w)
           in captureStackTrace E e w'))"

text \<open>Lines 129 to 133.\<close>

definition add_properties :: "ctor option \<Rightarrow> int \<Rightarrow> obj \<Rightarrow> obj" where
  "add_properties HttpError status err =
     (if HttpError = None \<or> \<not> instanceof err (the HttpError) \<or> get err ''status'' \<noteq> VNum status
      then
        (let err = assign err ''expose'' (VBool (status < 500));
             err = assign err ''statusCode'' (VNum status);
             err = assign err ''status'' (VNum status)
         in err)
      else err)"

text \<open>Lines 135 to 139.\<close>

definition copy_props :: "obj option \<Rightarrow> obj \<Rightarrow> obj" where
  "copy_props props err =
     fold (\<lambda>key err. if key \<noteq> ''status'' \<and> key \<noteq> ''statusCode''
                      then assign err key (props_get props key) else err)
       (props_keys props) err"

definition slow_path ::
  "env \<Rightarrow> obj option \<Rightarrow> string option \<Rightarrow> int \<Rightarrow> obj option \<Rightarrow> world \<Rightarrow> obj \<times> world" where
  "slow_path E err msg status props w =
     (let HttpError = resolve_ctor E status;
          (err, w') = create_err E HttpError err msg status w;
          err = add_properties HttpError status err;
          err = copy_props props err
      in (err, w'))"

definition createError :: "env \<Rightarrow> arg list \<Rightarrow> world \<Rightarrow> (error + obj) \<times> world" where
  "createError E args w =
     (case scan 0 args (None, None, VNum 500, None) of
        Inl e \<Rightarrow> (Inl e, w)
      | Inr (err, msg, status0, props) \<Rightarrow>
          (let w = (if non_error_status status0 then w\<lparr>warnings := Suc (warnings w)\<rparr> else w);
               status = resolve_status E status0;
               hasCustomMsg = (msg \<noteq> None);
               hasProps = (props_keys props \<noteq> [])
           in if err = None \<and> \<not> hasCustomMsg \<and> \<not> hasProps \<and> pooled status
                 \<and> errorPool w status \<noteq> []
              then
                (Inr (delete_prop (last (errorPool w status)) ''stack''),
                 w\<lparr>errorPool := (errorPool w)(status := butlast (errorPool w status))\<rparr>)
              else
                (let (err, w) = slow_path E err msg status props w in (Inr err, w))))"

section \<open>releaseError\<close>

text \<open>
  \<open>errorPool[status]\<close> for an arbitrary value of \<open>status\<close>. \<open>errorPool\<close> is an object literal,
  so besides its five arrays the lookup finds what \<open>Object.prototype\<close> has under the key:
  its methods, functions whose \<open>length\<close> is below \<open>poolSize\<close> and that have no \<open>push\<close>, and
  under \<open>__proto__\<close> the prototype itself, which has no \<open>length\<close>.
\<close>

datatype slot = Slot int | InheritedMethod | InheritedObject | Absent

definition object_prototype_methods :: "string list" where
  "object_prototype_methods =
     [''constructor'', ''hasOwnProperty'', ''isPrototypeOf'', ''propertyIsEnumerable'',
      ''toLocaleString'', ''toString'', ''valueOf'', ''__defineGetter__'', ''__defineSetter__'',
      ''__lookupGetter__'', ''__lookupSetter__'']"

definition errorPool_lookup :: "jsval \<Rightarrow> slot" where
  "errorPool_lookup status =
     (case status of
        VNum n \<Rightarrow> if pooled n then Slot n else Absent
      | VStr s \<Rightarrow>
          if s = ''400'' then Slot 400 else if s = ''401'' then Slot 401
          else if s = ''403'' then Slot 403 else if s = ''404'' then Slot 404
          else if s = ''500'' then Slot 500
          else if s \<in> set object_prototype_methods then InheritedMethod
          else if s = ''__proto__'' then InheritedObject
          else Absent
      | _ \<Rightarrow> Absent)"

text \<open>The loop of lines 152 to 157.\<close>

definition kept_key :: "string \<Rightarrow> bool" where
  "kept_key key = (key = ''status'' \<or> key = ''statusCode'' \<or> key = ''expose'' \<or>
                   key = ''message'' \<or> key = ''name'')"

definition clear_custom :: "obj \<Rightarrow> obj" where
  "clear_custom err =
     fold (\<lambda>key err. if \<not> kept_key key then delete_prop err key else err) (forin_keys err) err"

text \<open>
  \<open>releaseError(err)\<close> returns the error it throws, if any, the object \<open>err\<close> as the call
  leaves it, and the module state.
\<close>

definition releaseError :: "obj \<Rightarrow> world \<Rightarrow> error option \<times> obj \<times> world" where
  "releaseError err w =
     (let status = js_or (get err ''statusCode'') (get err ''status'')
      in case errorPool_lookup status of
           Slot c \<Rightarrow>
             if length (errorPool w c) < poolSize then
               (let err = clear_custom err
                in (None, err, w\<lparr>errorPool := (errorPool w)(c := errorPool w c @ [err])\<rparr>))
             else (None, err, w)
         | InheritedMethod \<Rightarrow>
             (Some (TypeError ''errorPool[status].push is not a function''), clear_custom err, w)
         | InheritedObject \<Rightarrow> (None, err, w)
         | Absent \<Rightarrow> (None, err, w))"

section \<open>isHttpError\<close>

definition isHttpError :: "arg \<Rightarrow> bool" where
  "isHttpError val =
     (case val of
        Object ob \<Rightarrow>
          if instanceof_HttpError ob then True
          else instanceof_Error ob \<and>
               typeof (get ob ''expose'') = ''boolean'' \<and>
               typeof (get ob ''statusCode'') = ''number'' \<and>
               get ob ''status'' = get ob ''statusCode''
      | _ \<Rightarrow> False)"

section \<open>Notions of the statements\<close>



text \<open>The guarantee of \<open>createError\<close>: \<open>status === statusCode\<close>, and \<open>expose\<close> is a boolean.\<close>

definition consistent :: "obj \<Rightarrow> bool" where
  "consistent ob =
     (get ob ''status'' = get ob ''statusCode'' \<and> typeof (get ob ''expose'') = ''boolean'')"


section \<open>A sample of the collaborators\<close>

text \<open>A small status table and the module state right after loading, for concrete runs.\<close>

definition sample_env :: env where
  "sample_env =
     \<lparr>statuses_message = (\<lambda>n. if n = 404 then Some ''Not Found''
                               else if n = 500 then Some ''Internal Server Error''
                               else if n = 200 then Some ''OK'' else None),
      statuses_codes = [200, 404, 500],
      toIdentifier = (\<lambda>s. if s = ''Not Found'' then ''NotFound''
                            else if s = ''Internal Server Error'' then ''InternalServerError''
                            else s),
      trace = (\<lambda>n. ''trace '' @ string_of_nat n)\<rparr>"

definition empty_world :: world where
  "empty_world = \<lparr>errorPool = (\<lambda>c. []), warnings = 0, captures = 0, next_oid = 0\<rparr>"

text \<open>
  The objects and module states of runs from \<open>empty_world\<close>: \<open>createError(404)\<close> returns
  \<open>plain_404\<close>, \<open>createError(404, 'X')\<close> returns \<open>custom_404\<close>, \<open>createError(404, {id: 7})\<close>
  returns \<open>tagged_404\<close> for the bag \<open>id_bag\<close>, each leaves the state \<open>world_after_one\<close>;
  \<open>world_pooling ob\<close> is that state with \<open>ob\<close> in the pool of 404, \<open>full_world\<close> the state
  with that pool at capacity. \<open>expose_bag\<close> is the bag \<open>{expose: 'yes'}\<close>, \<open>generic_error\<close> a
  plain \<open>new Error('oops')\<close>, and \<open>odd_status_error\<close> an error whose \<open>statusCode\<close> is the
  string \<open>toString\<close>.
\<close>

definition plain_404 :: obj where
  "plain_404 =
     \<lparr>oid = 0, proto = ClientProto 404, stack = Stored (VStr ''trace 0'') False,
      own = [(''message'', VStr ''Not Found'', True), (''name'', VStr ''NotFoundError'', False)]\<rparr>"

definition custom_404 :: obj where
  "custom_404 =
     \<lparr>oid = 0, proto = ClientProto 404, stack = Stored (VStr ''trace 0'') False,
      own = [(''message'', VStr ''X'', True), (''name'', VStr ''NotFoundError'', False)]\<rparr>"

definition world_after_one :: world where
  "world_after_one = \<lparr>errorPool = (\<lambda>c. []), warnings = 0, captures = 1, next_oid = 1\<rparr>"

definition world_pooling :: "obj \<Rightarrow> world" where
  "world_pooling ob =
     \<lparr>errorPool = (\<lambda>c. if c = 404 then [ob] else []), warnings = 0, captures = 1, next_oid = 1\<rparr>"







text \<open>\<open>tampered_404\<close> is \<open>plain_404\<close> after the assignment \<open>statusCode = 500\<close> by its holder.\<close>

definition tampered_404 :: obj where
  "tampered_404 =
     \<lparr>oid = 0, proto = ClientProto 404, stack = Stored (VStr ''trace 0'') False,
      own = [(''message'', VStr ''Not Found'', True), (''name'', VStr ''NotFoundError'', False),
             (''statusCode'', VNum 500, True)]\<rparr>"

section \<open>Basic facts\<close>

lemma get_assign:
  "get (assign e k v) k' = (if k = ''stack'' then get e k' else if k' = k then v else get e k')"
  by (simp add: get_def assign_def update_conv' split: option.split)

lemma proto_assign [simp]: "proto (assign e k v) = proto e"
  by (simp add: assign_def)

lemma oid_assign [simp]: "oid (assign e k v) = oid e"
  by (simp add: assign_def)

lemma get_delete_stack [simp]: "get (delete_prop e ''stack'') k = get e k"
  by (simp add: get_def delete_prop_def split: option.split)

lemma proto_delete_prop [simp]: "proto (delete_prop e k) = proto e"
  by (simp add: delete_prop_def)








lemma ClientError_eq:
  "ClientError E name code m w =
     (\<lparr>oid = next_oid w, proto = ClientProto code, stack = Lazy False VUndefined,
       own = [(''message'', if m \<noteq> VUndefined \<and> m \<noteq> VNull then m else statuses_lookup E code, True),
              (''name'', VStr (toClassName name), False)]\<rparr>,
      w\<lparr>next_oid := Suc (next_oid w)\<rparr>)"
  by (simp add: ClientError_def new_Error_def delete_prop_def defineProperty_def Let_def)

lemma ServerError_eq:
  "ServerError E name code m w =
     (\<lparr>oid = next_oid w, proto = ServerProto code, stack = Lazy False VUndefined,
       own = [(''message'', if m \<noteq> VUndefined \<and> m \<noteq> VNull then m else statuses_lookup E code, True),
              (''name'', VStr (toClassName name), False)]\<rparr>,
      w\<lparr>next_oid := Suc (next_oid w)\<rparr>)"
  by (simp add: ServerError_def new_Error_def delete_prop_def defineProperty_def Let_def)

lemma lead_digit_3:
  assumes "100 \<le> n" and "n < 1000"
  shows "lead_digit n = n div 100"
proof -
  have b: "\<not> n < 10" "\<not> n div 10 < 10" "n div 10 div 10 < 10" "n div 10 div 10 = n div 100"
    using assms by arith+
  have "lead_digit n = lead_digit (n div 10)"
    using b(1) lead_digit.simps [of n] by argo
  also have "\<dots> = lead_digit (n div 10 div 10)"
    using b(2) lead_digit.simps [of "n div 10"] by argo
  also have "\<dots> = n div 10 div 10"
    using b(3) lead_digit.simps [of "n div 10 div 10"] by argo
  finally show ?thesis using b(4) by simp
qed

lemma codeClass_4xx: "400 \<le> n \<Longrightarrow> n < 500 \<Longrightarrow> codeClass n = 400"
  by (simp add: codeClass_def lead_digit_3)

lemma codeClass_5xx: "500 \<le> n \<Longrightarrow> n < 600 \<Longrightarrow> codeClass n = 500"
  by (simp add: codeClass_def lead_digit_3)

text \<open>The equations that run the model on the sample.\<close>

lemmas run_defs = createError_def slow_path_def create_err_def add_properties_def copy_props_def
  props_keys_def props_get_def resolve_ctor_def exports_def resolve_status_def
  non_error_status_def statuses_lookup_def pooled_def captureStackTrace_def
  ClientError_eq ServerError_eq new_Error_def instanceof_def instanceof_Error_def
  instanceof_HttpError_def get_def error_proto_get_def
  assign_def delete_prop_def forin_keys_def own_enum_keys_def get_enum_def msg_val_def js_or_def
  releaseError_def errorPool_lookup_def clear_custom_def kept_key_def poolSize_def
  sample_env_def empty_world_def Let_def toClassName_def codeClass_4xx codeClass_5xx
  string_of_nat.simps read_stack_def plain_404_def custom_404_def world_after_one_def
  world_pooling_def fun_eq_iff

lemma copy_fold_oid:
  "oid (fold (\<lambda>key err. if P key then assign err key (g key) else err) ks e) = oid e"
  by (induction ks arbitrary: e) simp_all

lemma copy_fold_proto:
  "proto (fold (\<lambda>key err. if P key then assign err key (g key) else err) ks e) = proto e"
  by (induction ks arbitrary: e) simp_all

lemma oid_copy_props [simp]: "oid (copy_props props e) = oid e"
  unfolding copy_props_def by (rule copy_fold_oid)

lemma proto_copy_props [simp]: "proto (copy_props props e) = proto e"
  unfolding copy_props_def by (rule copy_fold_proto)

lemma oid_add_properties [simp]: "oid (add_properties H status e) = oid e"
  by (simp add: add_properties_def Let_def)

lemma proto_add_properties [simp]: "proto (add_properties H status e) = proto e"
  by (simp add: add_properties_def Let_def)

lemma construct_eq:
  "construct E c m w =
     (\<lparr>oid = next_oid w, proto = ctor_prototype c, stack = Lazy False VUndefined,
       own = [(''message'', if m \<noteq> VUndefined \<and> m \<noteq> VNull then m
                             else statuses_lookup E (case c of ClientCtor n k \<Rightarrow> k | ServerCtor n k \<Rightarrow> k), True),
              (''name'', VStr (toClassName (case c of ClientCtor n k \<Rightarrow> n | ServerCtor n k \<Rightarrow> n)), False)]\<rparr>,
      w\<lparr>next_oid := Suc (next_oid w)\<rparr>)"
  by (cases c) (simp_all add: ClientError_eq ServerError_eq)

lemma create_err_None:
  "create_err E H None msg status w = (e, w') \<Longrightarrow>
   oid e = next_oid w \<and> errorPool w' = errorPool w \<and> warnings w' = warnings w
   \<and> captures w' = Suc (captures w) \<and> next_oid w' = Suc (next_oid w)
   \<and> stack e = Stored (VStr (trace E (captures w))) False
   \<and> proto e = (case H of Some c \<Rightarrow> ctor_prototype c | None \<Rightarrow> ErrorProto)"
  by (cases H) (auto simp: create_err_def construct_eq new_Error_def captureStackTrace_def)

lemma create_err_Some: "create_err E H (Some e) msg status w = (e, w)"
  by (simp add: create_err_def)

lemma slow_path_pool: "errorPool (snd (slow_path E err msg status props w)) = errorPool w"
  by (cases err; cases "create_err E (resolve_ctor E status) None msg status w")
     (auto simp: slow_path_def Let_def create_err_Some dest: create_err_None)


lemma slow_path_fresh: "oid (fst (slow_path E None msg status props w)) = next_oid w"
  by (cases "create_err E (resolve_ctor E status) None msg status w")
     (auto simp: slow_path_def Let_def dest: create_err_None)

lemma scan_number_bag:
  "\<not> instanceof_Error bag \<Longrightarrow>
   scan 0 [Prim (VNum n), Object bag] (None, None, VNum 500, None) = Inr (None, None, VNum n, Some bag)"
  by simp

lemma scan_number: "scan 0 [Prim (VNum n)] (None, None, VNum 500, None) = Inr (None, None, VNum n, None)"
  by simp

lemma resolve_status_in_range: "400 \<le> n \<Longrightarrow> n < 600 \<Longrightarrow> resolve_status E (VNum n) = n"
  by (simp add: resolve_status_def)

lemma copy_fold_get:
  "\<forall>k. P k \<longrightarrow> k \<noteq> x \<Longrightarrow>
   get (fold (\<lambda>key err. if P key then assign err key (g key) else err) ks e) x = get e x"
  by (induction ks arbitrary: e) (auto simp: get_assign)

lemma get_copy_props_status [simp]: "get (copy_props props e) ''status'' = get e ''status''"
  unfolding copy_props_def by (rule copy_fold_get) simp

lemma get_copy_props_statusCode [simp]:
  "get (copy_props props e) ''statusCode'' = get e ''statusCode''"
  unfolding copy_props_def by (rule copy_fold_get) simp

lemma get_add_properties_status [simp]: "get (add_properties H status e) ''status'' = VNum status"
  by (simp add: add_properties_def Let_def get_assign)








lemma clear_fold_proto:
  "proto (fold (\<lambda>key err. if \<not> kept_key key then delete_prop err key else err) ks e) = proto e"
  by (induction ks arbitrary: e) simp_all

lemma clear_fold_oid:
  "oid (fold (\<lambda>key err. if \<not> kept_key key then delete_prop err key else err) ks e) = oid e"
  by (induction ks arbitrary: e) (simp_all add: delete_prop_def)

lemma proto_clear_custom [simp]: "proto (clear_custom e) = proto e"
  unfolding clear_custom_def by (rule clear_fold_proto)

lemma oid_clear_custom [simp]: "oid (clear_custom e) = oid e"
  unfolding clear_custom_def by (rule clear_fold_oid)














lemma typeof_boolean: "typeof v = ''boolean'' \<longleftrightarrow> (\<exists>b. v = VBool b)"
  by (cases v) auto

lemma typeof_number: "typeof v = ''number'' \<longleftrightarrow> (\<exists>n. v = VNum n)"
  by (cases v) auto






lemma consistent_delete_stack [simp]: "consistent (delete_prop e ''stack'') = consistent e"
  by (simp add: consistent_def)






lemma isHttpError_delete_stack [simp]:
  "isHttpError (Object (delete_prop e ''stack'')) = isHttpError (Object e)"
  by (simp add: isHttpError_def instanceof_HttpError_def instanceof_Error_def)



text \<open>
  With nothing in the pool of \<open>c\<close>, \<open>createError(c)\<close> for a registered code \<open>c\<close> of
  [400,599] builds the variant of \<open>c\<close>: status and statusCode \<open>c\<close>, expose \<open>c < 500\<close>, the
  reason phrase as message.
\<close>

lemma createError_number_fresh:
  assumes "400 \<le> c" and "c < 600" and "statuses_message E c = Some phrase"
    and "c \<in> set (statuses_codes E)" and "errorPool w c = []"
  shows "\<exists>r w'. createError E [Prim (VNum c)] w = (Inr r, w') \<and> get r ''status'' = VNum c
           \<and> get r ''statusCode'' = VNum c \<and> get r ''expose'' = VBool (c < 500)
           \<and> get r ''message'' = VStr phrase"
proof (cases "c < 500")
  case True
  with assms have "exports E c = Some (ClientCtor (toIdentifier E phrase) c)"
    by (simp add: exports_def codeClass_4xx)
  with assms True show ?thesis
    by (simp add: createError_def non_error_status_def resolve_status_in_range props_keys_def
        slow_path_def resolve_ctor_def create_err_def msg_val_def ClientError_eq
        captureStackTrace_def add_properties_def instanceof_def get_def copy_props_def
        statuses_lookup_def Let_def)
next
  case False
  with assms have "exports E c = Some (ServerCtor (toIdentifier E phrase) c)"
    by (simp add: exports_def codeClass_5xx)
  with assms False show ?thesis
    by (simp add: createError_def non_error_status_def resolve_status_in_range props_keys_def
        slow_path_def resolve_ctor_def create_err_def msg_val_def ServerError_eq
        captureStackTrace_def add_properties_def instanceof_def get_def copy_props_def
        statuses_lookup_def Let_def)
qed

text \<open>
  An adopted error that is already an instance of the resolved constructor and carries
  the resolved \<open>status\<close> passes the test of line 129 and is returned as it came.
\<close>

lemma createError_adopts_unstamped:
  "createError sample_env [Object tampered_404] empty_world = (Inr tampered_404, empty_world)
   \<and> get tampered_404 ''status'' = VNum 404 \<and> get tampered_404 ''statusCode'' = VNum 500"
  by (simp add: run_defs tampered_404_def)

section \<open>The message of a reused instance\<close>

text \<open>
  Claim C1, at \<open>createError(404, 'X')\<close>, \<open>releaseError\<close> of the result, \<open>createError(404)\<close>:
  \<open>releaseError\<close> keeps the key \<open>message\<close> whatever its value, and the fast path returns
  the pooled instance as it is, so the last call, given the single argument 404,
  returns the message \<open>X\<close> where the reason phrase of 404 is \<open>Not Found\<close>.
\<close>

theorem createError_pooled_custom_message:
  "createError sample_env [Prim (VNum 404), Prim (VStr ''X'')] empty_world
     = (Inr custom_404, world_after_one)
   \<and> releaseError custom_404 world_after_one = (None, custom_404, world_pooling custom_404)
   \<and> createError sample_env [Prim (VNum 404)] (world_pooling custom_404)
     = (Inr (custom_404\<lparr>stack := NoStack\<rparr>), world_after_one)
   \<and> get (custom_404\<lparr>stack := NoStack\<rparr>) ''message'' = VStr ''X''
   \<and> statuses_lookup sample_env 404 = VStr ''Not Found''"
  by (simp add: run_defs)

section \<open>The guarantee of createError\<close>




section \<open>What releaseError removes\<close>




section \<open>The stack of a reused instance\<close>

text \<open>
  Claim C4, at \<open>createError(404)\<close>, \<open>releaseError\<close> of the result, \<open>createError(404)\<close>, then
  a read of \<open>stack\<close>: the fast path deletes the own property \<open>stack\<close>, accessor or data,
  and installs nothing in its place, so the read finds no property: it returns
  \<open>undefined\<close> and makes no capture.
\<close>

theorem createError_pooled_stack_undefined:
  "createError sample_env [Prim (VNum 404)] empty_world = (Inr plain_404, world_after_one)
   \<and> releaseError plain_404 world_after_one = (None, plain_404, world_pooling plain_404)
   \<and> createError sample_env [Prim (VNum 404)] (world_pooling plain_404)
     = (Inr (plain_404\<lparr>stack := NoStack\<rparr>), world_after_one)
   \<and> read_stack sample_env (plain_404\<lparr>stack := NoStack\<rparr>) world_after_one
     = (VUndefined, plain_404\<lparr>stack := NoStack\<rparr>, world_after_one)"
  by (simp add: run_defs)

section \<open>The fallback to status 500\<close>



section \<open>Unsupported arguments\<close>



section \<open>The capacity of the pools\<close>




section \<open>Lazy capture of the stack\<close>

text \<open>
  Claim C8. An instance fresh from \<open>ClientError\<close> or \<open>ServerError\<close> carries the accessor
  with \<open>stackCaptured = false\<close>, and building it makes no call of \<open>Error.captureStackTrace\<close>.
  The first read of \<open>stack\<close> makes one capture and leaves its text as a data property;
  the second read returns the same text and changes neither the object nor the count of
  captures. A write before any read leaves the accessor with \<open>stackCaptured = true\<close> and
  the written value, which every later read returns without a capture.
\<close>

theorem lazy_stack_capture:
  "stack (fst (ClientError E name code m w)) = Lazy False VUndefined
   \<and> captures (snd (ClientError E name code m w)) = captures w
   \<and> (let (e, w1) = ClientError E name code m w;
           (v1, e1, w2) = read_stack E e w1;
           (v2, e2, w3) = read_stack E e1 w2
       in v1 = VStr (trace E (captures w)) \<and> stack e1 = Stored v1 False
          \<and> captures w2 = Suc (captures w) \<and> v2 = v1 \<and> e2 = e1 \<and> w3 = w2)
   \<and> (let (e, w1) = ClientError E name code m w;
           e' = assign e ''stack'' v;
           (v1, e1, w2) = read_stack E e' w1
       in stack e' = Lazy True v \<and> v1 = v \<and> e1 = e' \<and> w2 = w1)
   \<and> stack (fst (ServerError E name code m w)) = Lazy False VUndefined
   \<and> captures (snd (ServerError E name code m w)) = captures w
   \<and> (let (e, w1) = ServerError E name code m w;
           (v1, e1, w2) = read_stack E e w1;
           (v2, e2, w3) = read_stack E e1 w2
       in v1 = VStr (trace E (captures w)) \<and> stack e1 = Stored v1 False
          \<and> captures w2 = Suc (captures w) \<and> v2 = v1 \<and> e2 = e1 \<and> w3 = w2)
   \<and> (let (e, w1) = ServerError E name code m w;
           e' = assign e ''stack'' v;
           (v1, e1, w2) = read_stack E e' w1
       in stack e' = Lazy True v \<and> v1 = v \<and> e1 = e' \<and> w2 = w1)"
  by (simp add: ClientError_eq ServerError_eq read_stack_def captureStackTrace_def get_enum_def
      Let_def assign_def)

section \<open>What isHttpError accepts\<close>




section \<open>The property bag and the fast path\<close>

text \<open>
  Claim C10. \<open>createError(404, bag)\<close> with a bag that has no enumerable key behaves as
  \<open>createError(404)\<close>: with an instance in the pool of 404 it pops that instance, deletes
  its \<open>stack\<close> and returns it. A bag with an enumerable key takes the slow path: the
  result is a newly allocated object and the pools are left alone.
\<close>

theorem empty_bag_fast_path:
  assumes "\<not> instanceof_Error bag"
  shows "(forin_keys bag = [] \<longrightarrow>
            createError E [Prim (VNum 404), Object bag] w = createError E [Prim (VNum 404)] w)
       \<and> (forin_keys bag = [] \<and> errorPool w 404 \<noteq> [] \<longrightarrow>
            createError E [Prim (VNum 404), Object bag] w =
              (Inr (delete_prop (last (errorPool w 404)) ''stack''),
               w\<lparr>errorPool := (errorPool w)(404 := butlast (errorPool w 404))\<rparr>))
       \<and> (forin_keys bag \<noteq> [] \<longrightarrow>
            (\<exists>r w'. createError E [Prim (VNum 404), Object bag] w = (Inr r, w')
                     \<and> oid r = next_oid w \<and> errorPool w' = errorPool w))"
proof (intro conjI impI)
  assume "forin_keys bag = []"
  then show "createError E [Prim (VNum 404), Object bag] w = createError E [Prim (VNum 404)] w"
    using assms
    by (simp add: createError_def props_keys_def non_error_status_def resolve_status_in_range
        slow_path_def copy_props_def Let_def)
next
  assume "forin_keys bag = [] \<and> errorPool w 404 \<noteq> []"
  then show "createError E [Prim (VNum 404), Object bag] w =
              (Inr (delete_prop (last (errorPool w 404)) ''stack''),
               w\<lparr>errorPool := (errorPool w)(404 := butlast (errorPool w 404))\<rparr>)"
    using assms
    by (simp add: createError_def props_keys_def non_error_status_def resolve_status_in_range
        pooled_def)
next
  assume ne: "forin_keys bag \<noteq> []"
  obtain r w' where sp: "slow_path E None None 404 (Some bag) w = (r, w')"
    by (cases "slow_path E None None 404 (Some bag) w")
  have "createError E [Prim (VNum 404), Object bag] w = (Inr r, w')"
    using assms ne sp
    by (simp add: createError_def props_keys_def non_error_status_def resolve_status_in_range)
  moreover have "oid r = next_oid w" using slow_path_fresh [of E None 404 "Some bag" w] sp by simp
  moreover have "errorPool w' = errorPool w"
    using slow_path_pool [of E None None 404 "Some bag" w] sp by simp
  ultimately show "\<exists>r w'. createError E [Prim (VNum 404), Object bag] w = (Inr r, w')
                     \<and> oid r = next_oid w \<and> errorPool w' = errorPool w" by blast
qed

theorem empty_bag_fast_path_witness:
  "\<not> instanceof_Error \<lparr>oid = 5, proto = ObjectProto, stack = NoStack, own = []\<rparr>
   \<and> forin_keys \<lparr>oid = 5, proto = ObjectProto, stack = NoStack, own = []\<rparr> = []
   \<and> errorPool (world_pooling plain_404) 404 \<noteq> []
   \<and> fst (createError sample_env
        [Prim (VNum 404), Object \<lparr>oid = 5, proto = ObjectProto, stack = NoStack, own = []\<rparr>]
        (world_pooling plain_404)) = Inr (plain_404\<lparr>stack := NoStack\<rparr>)
   \<and> forin_keys \<lparr>oid = 6, proto = ObjectProto, stack = NoStack, own = [(''id'', VNum 7, True)]\<rparr> \<noteq> []
   \<and> errorPool (snd (createError sample_env
        [Prim (VNum 404), Object \<lparr>oid = 6, proto = ObjectProto, stack = NoStack, own = [(''id'', VNum 7, True)]\<rparr>]
        (world_pooling plain_404))) = errorPool (world_pooling plain_404)"
proof -
  let ?b = "\<lparr>oid = 5, proto = ObjectProto, stack = NoStack, own = []\<rparr>"
  let ?c = "\<lparr>oid = 6, proto = ObjectProto, stack = NoStack, own = [(''id'', VNum 7, True)]\<rparr>"
  have b: "\<not> instanceof_Error ?b" "forin_keys ?b = []" "errorPool (world_pooling plain_404) 404 \<noteq> []"
    by (simp_all add: instanceof_Error_def forin_keys_def own_enum_keys_def world_pooling_def)
  have c: "\<not> instanceof_Error ?c" "forin_keys ?c \<noteq> []"
    by (simp_all add: instanceof_Error_def forin_keys_def own_enum_keys_def)
  from empty_bag_fast_path [OF b(1), of sample_env "world_pooling plain_404"] b
  have "createError sample_env [Prim (VNum 404), Object ?b] (world_pooling plain_404) =
          (Inr (delete_prop (last (errorPool (world_pooling plain_404) 404)) ''stack''),
           (world_pooling plain_404)\<lparr>errorPool := (errorPool (world_pooling plain_404))
              (404 := butlast (errorPool (world_pooling plain_404) 404))\<rparr>)"
    by blast
  then have 1: "fst (createError sample_env [Prim (VNum 404), Object ?b] (world_pooling plain_404))
             = Inr (plain_404\<lparr>stack := NoStack\<rparr>)"
    by (simp add: world_pooling_def delete_prop_def)
  from empty_bag_fast_path [OF c(1), of sample_env "world_pooling plain_404"] c
  have 2: "errorPool (snd (createError sample_env [Prim (VNum 404), Object ?c] (world_pooling plain_404)))
             = errorPool (world_pooling plain_404)"
    by auto
  from b c 1 2 show ?thesis by blast
qed

end
